theory Spec2Isabelle
  imports Complex_Main
begin

section \<open>JavaScript values and string helpers\<close>

text \<open>
  Numbers are modelled as HOL reals and integers: delays in milliseconds are \<open>real\<close>,
  parsed second counts and epoch times are \<open>int\<close>. The rounding of IEEE doubles
  (beyond \<open>2^53\<close>) is outside the model. A value that the source may leave
  \<open>undefined\<close> or \<open>null\<close> is an \<open>option\<close>.
\<close>

definition startsWith :: "string \<Rightarrow> string \<Rightarrow> bool" where
  "startsWith s p = (take (length p) s = p)"

definition endsWith :: "string \<Rightarrow> string \<Rightarrow> bool" where
  "endsWith s p = (length p \<le> length s \<and> drop (length s - length p) s = p)"

fun includesStr :: "string \<Rightarrow> string \<Rightarrow> bool" where
  "includesStr [] p = (p = [])"
| "includesStr (c # cs) p = (startsWith (c # cs) p \<or> includesStr cs p)"

definition isDigit :: "char \<Rightarrow> bool" where
  "isDigit c = (c \<in> set ''0123456789'')"

definition digitValue :: "char \<Rightarrow> int" where
  "digitValue c = int (of_char c) - 48"

definition isStrWhiteSpaceChar :: "char \<Rightarrow> bool" where
  "isStrWhiteSpaceChar c = (c \<in> {CHR '' '', CHR 0x09, CHR 0x0A, CHR 0x0B, CHR 0x0C, CHR 0x0D})"

text \<open>
  \<open>parseInt(s, 10)\<close> of ECMAScript: leading white space is skipped (here the ASCII
  white space; a header value holds no other), one sign is accepted, then the longest
  run of decimal digits is read and everything after it is ignored; with no digit the
  result is \<open>NaN\<close>, here \<open>None\<close>.
\<close>

definition digitsValue :: "string \<Rightarrow> int" where
  "digitsValue ds = foldl (\<lambda>acc c. 10 * acc + digitValue c) 0 ds"

definition parseInt10 :: "string \<Rightarrow> int option" where
  "parseInt10 s =
     (let t = dropWhile isStrWhiteSpaceChar s;
          sgn = (case t of c # _ \<Rightarrow> if c = CHR ''-'' then - 1 else 1 | [] \<Rightarrow> 1);
          u = (case t of c # r \<Rightarrow> if c = CHR ''-'' \<or> c = CHR ''+'' then r else t | [] \<Rightarrow> []);
          ds = takeWhile isDigit u
      in if ds = [] then None else Some (sgn * digitsValue ds))"

section \<open>Retry/backoff engine\<close>

record rate_limit_config =
  maxRetries :: nat
  baseDelayMs :: real
  maxDelayMs :: real
  jitterFactor :: real

definition RATE_LIMIT_CONFIG :: rate_limit_config where
  "RATE_LIMIT_CONFIG =
     \<lparr>maxRetries = 3, baseDelayMs = 1000, maxDelayMs = 30000, jitterFactor = 0.2\<rparr>"

text \<open>
  \<open>calculateBackoffDelay(attempt, retryAfterSeconds?)\<close>. The value that
  \<open>Math.random()\<close> returns is the explicit first argument \<open>rnd\<close>.
\<close>

definition calculateBackoffDelay :: "real \<Rightarrow> nat \<Rightarrow> real option \<Rightarrow> real" where
  "calculateBackoffDelay rnd attempt retryAfterSeconds =
     (if retryAfterSeconds \<noteq> None \<and> the retryAfterSeconds > 0
      then (let h = the retryAfterSeconds;
                jitter = rnd * jitterFactor RATE_LIMIT_CONFIG * h * 1000
            in min (h * 1000 + jitter) (maxDelayMs RATE_LIMIT_CONFIG))
      else (let exponentialDelay = baseDelayMs RATE_LIMIT_CONFIG * 2 ^ attempt;
                jitter = rnd * jitterFactor RATE_LIMIT_CONFIG * exponentialDelay
            in min (exponentialDelay + jitter) (maxDelayMs RATE_LIMIT_CONFIG)))"

text \<open>
  \<open>parseRetryAfter(retryAfter)\<close>. \<open>new Date(s).getTime()\<close> is the parameter
  \<open>dateParse\<close> (\<open>None\<close> for an invalid date, else milliseconds since the epoch) and
  \<open>Date.now()\<close> is the parameter \<open>now\<close>. \<open>Math.ceil(delayMs / 1000)\<close> on an
  integer is \<open>- ((- delayMs) div 1000)\<close>.
\<close>

definition ceilDiv1000 :: "int \<Rightarrow> int" where
  "ceilDiv1000 delayMs = - ((- delayMs) div 1000)"

definition parseRetryAfter :: "(string \<Rightarrow> int option) \<Rightarrow> int \<Rightarrow> string option \<Rightarrow> int option" where
  "parseRetryAfter dateParse now retryAfter =
     (case retryAfter of
        None \<Rightarrow> None
      | Some s \<Rightarrow>
          if s = [] then None
          else (case parseInt10 s of
                  Some seconds \<Rightarrow> Some seconds
                | None \<Rightarrow>
                    (case dateParse s of
                       Some t \<Rightarrow>
                         (let delayMs = t - now
                          in Some (if delayMs > 0 then ceilDiv1000 delayMs else 0))
                     | None \<Rightarrow> None)))"

section \<open>Platform functions, values and errors\<close>

text \<open>
  The built-in functions of the browser that the client calls are parameters of
  the model: the \<open>URL\<close> class (\<open>newURL\<close> is \<open>None\<close> where the constructor throws
  \<open>TypeError\<close>), \<open>Date\<close> parsing and \<open>decodeURIComponent\<close> (\<open>None\<close> where it throws
  \<open>URIError\<close>). \<open>'u\<close> is the type of \<open>URL\<close> objects.
\<close>

record 'u platform =
  newURL :: "string \<Rightarrow> 'u option"
  urlProtocol :: "'u \<Rightarrow> string"
  urlHostname :: "'u \<Rightarrow> string"
  searchParamsAppend :: "'u \<Rightarrow> string \<Rightarrow> string \<Rightarrow> 'u"
  urlToString :: "'u \<Rightarrow> string"
  dateParse :: "string \<Rightarrow> int option"
  decodeURIComponent :: "string \<Rightarrow> string option"

datatype js_value =
    JUndefined
  | JNull
  | JBool bool
  | JNum real
  | JStr string
  | JArr "js_value list"
  | JObj "(string \<times> js_value) list"

text \<open>Truthiness, as \<open>||\<close> and \<open>if\<close> test it.\<close>

fun truthy :: "js_value \<Rightarrow> bool" where
  "truthy JUndefined = False"
| "truthy JNull = False"
| "truthy (JBool b) = b"
| "truthy (JNum n) = (n \<noteq> 0)"
| "truthy (JStr s) = (s \<noteq> [])"
| "truthy (JArr _) = True"
| "truthy (JObj _) = True"

text \<open>\<open>typeof data === 'object' && data !== null\<close>.\<close>

fun isNonNullObject :: "js_value \<Rightarrow> bool" where
  "isNonNullObject (JArr _) = True"
| "isNonNullObject (JObj _) = True"
| "isNonNullObject _ = False"

text \<open>Reading the property \<open>k\<close> of a decoded JSON value; an array has none of the
  properties read here.\<close>

fun getProp :: "js_value \<Rightarrow> string \<Rightarrow> js_value" where
  "getProp (JObj kvs) k = (case map_of kvs k of Some v \<Rightarrow> v | None \<Rightarrow> JUndefined)"
| "getProp _ k = JUndefined"

text \<open>The \<open>ApiError\<close> interface: \<open>{code, message, details?, statusCode?}\<close>. The fields
  \<open>code\<close> and \<open>message\<close> are typed \<open>string\<close> in the source, but \<open>handleResponse\<close>
  fills them from the server's JSON with a cast only, so they hold any value.\<close>

record api_error =
  code :: js_value
  message :: js_value
  statusCode :: "nat option"
  details :: js_value

text \<open>A thrown value is an \<open>ApiError\<close> object literal, or an exception object of the
  platform with its \<open>name\<close> and \<open>message\<close> (\<open>Error\<close>, \<open>TypeError\<close>, \<open>AbortError\<close>,
  \<open>SyntaxError\<close>, \<open>URIError\<close>).\<close>

datatype thrown = ApiErr api_error | Exception string string


datatype console_warning =
    ApiUrlNotConfigured
  | FailedToGetAccessToken thrown
  | CsrfTokenMissing string
  | RateLimitHit string string nat nat real

section \<open>Configuration validator\<close>

record process_env =
  NEXT_PUBLIC_API_URL :: "string option"
  NODE_ENV :: "string option"

definition isProduction :: "process_env \<Rightarrow> bool" where
  "isProduction penv = (NODE_ENV penv = Some ''production'')"

definition toLowerAscii :: "char \<Rightarrow> char" where
  "toLowerAscii c =
     (let n = (of_char c :: nat) in if 65 \<le> n \<and> n \<le> 90 then char_of (n + 32) else c)"

definition localhostVariants :: "string list" where
  "localhostVariants = [''localhost'', ''127.0.0.1'', ''::1'', ''[::1]'', ''0.0.0.0'']"

definition isLocalhost :: "string \<Rightarrow> bool" where
  "isLocalhost hostname =
     (hostname \<in> set localhostVariants \<or> endsWith hostname ''.local''
      \<or> startsWith hostname ''127.'')"

text \<open>\<open>/^(10\.|172\.(1[6-9]|2[0-9]|3[01])\.|192\.168\.)/\<close>\<close>

definition privateIPv4Pattern :: "string \<Rightarrow> bool" where
  "privateIPv4Pattern h =
     (startsWith h ''10.''
      \<or> (startsWith h ''172.''
          \<and> (case drop 4 h of
                a # b # c # _ \<Rightarrow>
                  ((a = CHR ''1'' \<and> b \<in> set ''6789'')
                   \<or> (a = CHR ''2'' \<and> isDigit b)
                   \<or> (a = CHR ''3'' \<and> b \<in> set ''01''))
                  \<and> c = CHR ''.''
              | _ \<Rightarrow> False))
      \<or> startsWith h ''192.168.'')"

text \<open>\<open>/^(fc|fd|fe80:)/i\<close>\<close>

definition privateIPv6Pattern :: "string \<Rightarrow> bool" where
  "privateIPv6Pattern h =
     (let l = map toLowerAscii h
      in startsWith l ''fc'' \<or> startsWith l ''fd'' \<or> startsWith l ''fe80:'')"

definition notConfiguredMessage :: string where
  "notConfiguredMessage =
     ''SECURITY ERROR: NEXT_PUBLIC_API_URL environment variable is not configured. '' @
     ''The API base URL must be explicitly set in production environments. '' @
     ''This prevents accidental connections to localhost or insecure endpoints.''"

definition notHttpsMessage :: "string \<Rightarrow> string" where
  "notHttpsMessage protocol =
     ''SECURITY ERROR: API URL must use HTTPS in production. Got: '' @ protocol @ ''. '' @
     ''Configure NEXT_PUBLIC_API_URL with an https:// URL.''"

definition privateHostMessage :: "string \<Rightarrow> string" where
  "privateHostMessage hostname =
     ''SECURITY ERROR: API URL cannot point to localhost or private network in production. '' @
     ''Got: '' @ hostname @
     ''. Configure NEXT_PUBLIC_API_URL with the production API server URL.''"

definition invalidFormatMessage :: "string \<Rightarrow> string" where
  "invalidFormatMessage configuredUrl =
     ''SECURITY ERROR: Invalid API URL format: '' @ [CHR 0x22] @ configuredUrl @ [CHR 0x22] @
     ''. NEXT_PUBLIC_API_URL must be a valid URL (e.g., https://api.example.com).''"

text \<open>
  \<open>getApiBaseUrl()\<close>: the warnings it prints and what it throws or returns. An error
  thrown inside the \<open>try\<close> is a plain \<open>Error\<close>, which the \<open>catch\<close> rethrows; the
  \<open>TypeError\<close> of the \<open>URL\<close> constructor is replaced by a plain \<open>Error\<close>.
\<close>

definition getApiBaseUrl ::
  "'u platform \<Rightarrow> process_env \<Rightarrow> console_warning list \<times> (thrown + string)" where
  "getApiBaseUrl P penv =
     (let configuredUrl = NEXT_PUBLIC_API_URL penv
      in if configuredUrl = None \<or> configuredUrl = Some []
         then (if isProduction penv
               then ([], Inl (Exception ''Error'' notConfiguredMessage))
               else ([ApiUrlNotConfigured], Inr ''http://localhost:5000''))
         else (case newURL P (the configuredUrl) of
                 None \<Rightarrow> ([], Inl (Exception ''Error'' (invalidFormatMessage (the configuredUrl))))
               | Some url \<Rightarrow>
                   if isProduction penv \<and> urlProtocol P url \<noteq> ''https:''
                   then ([], Inl (Exception ''Error'' (notHttpsMessage (urlProtocol P url))))
                   else if isProduction penv
                           \<and> (isLocalhost (urlHostname P url)
                                \<or> privateIPv4Pattern (urlHostname P url)
                                \<or> privateIPv6Pattern (urlHostname P url))
                   then ([], Inl (Exception ''Error'' (privateHostMessage (urlHostname P url))))
                   else ([], Inr (the configuredUrl))))"

text \<open>The module-level cache \<open>cachedApiBaseUrl\<close> and the client's field \<open>baseUrl\<close>.\<close>

record client_state =
  baseUrl :: "string option"
  cachedApiBaseUrl :: "string option"

definition getApiBaseUrlLazy ::
  "'u platform \<Rightarrow> process_env \<Rightarrow> client_state
     \<Rightarrow> client_state \<times> console_warning list \<times> (thrown + string)" where
  "getApiBaseUrlLazy P penv st =
     (case cachedApiBaseUrl st of
        None \<Rightarrow>
          (case getApiBaseUrl P penv of
             (ws, Inl e) \<Rightarrow> (st, ws, Inl e)
           | (ws, Inr u) \<Rightarrow> (st\<lparr>cachedApiBaseUrl := Some u\<rparr>, ws, Inr u))
      | Some u \<Rightarrow> (st, [], Inr u))"

definition getBaseUrl ::
  "'u platform \<Rightarrow> process_env \<Rightarrow> client_state
     \<Rightarrow> client_state \<times> console_warning list \<times> (thrown + string)" where
  "getBaseUrl P penv st =
     (case baseUrl st of
        None \<Rightarrow>
          (case getApiBaseUrlLazy P penv st of
             (st', ws, Inl e) \<Rightarrow> (st', ws, Inl e)
           | (st', ws, Inr u) \<Rightarrow> (st'\<lparr>baseUrl := Some u\<rparr>, ws, Inr u))
      | Some u \<Rightarrow> (st, [], Inr u))"

text \<open>Query parameter values are \<open>string | number | boolean\<close>; \<open>String(value)\<close> renders
  them. Numbers are integers here.\<close>

datatype param_value = PString string | PNumber int | PBoolean bool

fun showNat :: "nat \<Rightarrow> string" where
  "showNat n =
     (if n < 10 then [char_of (48 + n)] else showNat (n div 10) @ [char_of (48 + n mod 10)])"

declare showNat.simps [simp del]

definition showInt :: "int \<Rightarrow> string" where
  "showInt i = (if i < 0 then CHR ''-'' # showNat (nat (- i)) else showNat (nat i))"

fun String :: "param_value \<Rightarrow> string" where
  "String (PString s) = s"
| "String (PNumber n) = showInt n"
| "String (PBoolean b) = (if b then ''true'' else ''false'')"

text \<open>
  \<open>buildUrl(endpoint, params)\<close>. The conditional expression is lazy: \<open>getBaseUrl\<close> runs
  only in its else branch. \<open>params\<close> is the list \<open>Object.entries(params)\<close>.
\<close>

definition appendParams :: "'u platform \<Rightarrow> 'u \<Rightarrow> (string \<times> param_value) list \<Rightarrow> 'u" where
  "appendParams P url ps = foldl (\<lambda>u (key, v). searchParamsAppend P u key (String v)) url ps"

definition finishUrl ::
  "'u platform \<Rightarrow> string \<Rightarrow> (string \<times> param_value) list option \<Rightarrow> thrown + string" where
  "finishUrl P s ps =
     (case newURL P s of
        None \<Rightarrow> Inl (Exception ''TypeError'' ''Invalid URL'')
      | Some url \<Rightarrow>
          Inr (urlToString P (case ps of None \<Rightarrow> url | Some l \<Rightarrow> appendParams P url l)))"

definition buildUrl ::
  "'u platform \<Rightarrow> process_env \<Rightarrow> client_state \<Rightarrow> string
     \<Rightarrow> (string \<times> param_value) list option
     \<Rightarrow> client_state \<times> console_warning list \<times> (thrown + string)" where
  "buildUrl P penv st endpoint ps =
     (if startsWith endpoint ''http''
      then (st, [], finishUrl P endpoint ps)
      else (case getBaseUrl P penv st of
              (st', ws, Inl e) \<Rightarrow> (st', ws, Inl e)
            | (st', ws, Inr base) \<Rightarrow> (st', ws, finishUrl P (base @ endpoint) ps)))"

section \<open>Request pipeline\<close>

record api_request_config =
  headers :: "(string \<times> string) list option"
  params :: "(string \<times> param_value) list option"
  timeout :: "real option"
  withAuth :: "bool option"
  skipRateLimitRetry :: "bool option"

text \<open>The part of \<open>document\<close> that \<open>getCsrfToken\<close> reads: the \<open>content\<close> attribute of
  the element \<open>meta[name="csrf-token"]\<close> (outer \<open>None\<close>: no such element; inner \<open>None\<close>:
  no such attribute) and \<open>document.cookie\<close>.\<close>

record document =
  csrfMetaTag :: "string option option"
  cookie :: string

text \<open>\<open>document.cookie.match(/XSRF-TOKEN=([^;]+)/)\<close>: the capture group of the leftmost
  match.\<close>

fun cookieMatch :: "string \<Rightarrow> string option" where
  "cookieMatch [] = None"
| "cookieMatch (c # cs) =
     (let grp = takeWhile (\<lambda>x. x \<noteq> CHR '';'') (drop 11 (c # cs))
      in if startsWith (c # cs) ''XSRF-TOKEN='' \<and> grp \<noteq> [] then Some grp
         else cookieMatch cs)"

definition getCsrfToken :: "'u platform \<Rightarrow> document \<Rightarrow> thrown + string option" where
  "getCsrfToken P d =
     (case csrfMetaTag d of
        Some content \<Rightarrow> Inr content
      | None \<Rightarrow>
          (case cookieMatch (cookie d) of
             Some m \<Rightarrow>
               (case decodeURIComponent P m of
                  Some t \<Rightarrow> Inr (Some t)
                | None \<Rightarrow> Inl (Exception ''URIError'' ''URI malformed''))
           | None \<Rightarrow> Inr None))"

text \<open>A \<open>Headers\<close> object: names in lower case, one value per name. The platform's check
  of header names and values is not modelled.\<close>

type_synonym http_headers = "(string \<times> string) list"

definition lowerCase :: "string \<Rightarrow> string" where
  "lowerCase s = map toLowerAscii s"

definition headersSet :: "string \<Rightarrow> string \<Rightarrow> http_headers \<Rightarrow> http_headers" where
  "headersSet name v hs =
     (let n = lowerCase name in filter (\<lambda>(k, _). k \<noteq> n) hs @ [(n, v)])"

definition headersAppend :: "string \<Rightarrow> string \<Rightarrow> http_headers \<Rightarrow> http_headers" where
  "headersAppend name v hs =
     (let n = lowerCase name
      in if n \<in> fst ` set hs
         then map (\<lambda>(k, old). if k = n then (k, old @ '', '' @ v) else (k, old)) hs
         else hs @ [(n, v)])"

text \<open>\<open>new Headers({'Content-Type': 'application/json', ...config?.headers})\<close>\<close>

definition configHeaders :: "api_request_config option \<Rightarrow> (string \<times> string) list" where
  "configHeaders config =
     (case config of
        None \<Rightarrow> []
      | Some c \<Rightarrow> (case headers c of None \<Rightarrow> [] | Some l \<Rightarrow> l))"

definition initialHeaders :: "api_request_config option \<Rightarrow> http_headers" where
  "initialHeaders config =
     (let overrides = configHeaders config;
          contentType = (case map_of overrides ''Content-Type'' of
                           Some v \<Rightarrow> v
                         | None \<Rightarrow> ''application/json'');
          obj = (''Content-Type'', contentType)
                  # filter (\<lambda>(k, _). k \<noteq> ''Content-Type'') overrides
      in foldl (\<lambda>hs (k, v). headersAppend k v hs) [] obj)"

definition stateChangingMethods :: "string list" where
  "stateChangingMethods = [''POST'', ''PUT'', ''PATCH'', ''DELETE'']"

definition csrfTokenMissingError :: api_error where
  "csrfTokenMissingError =
     \<lparr>code = JStr ''CSRF_TOKEN_MISSING'',
      message = JStr ''CSRF token is required for this operation. Please refresh the page and try again.'',
      statusCode = Some 403,
      details = JUndefined\<rparr>"

text \<open>
  What one attempt meets: how \<open>getAccessToken()\<close> settles, the document, how the
  expression \<open>await fetch(url, {...})\<close> settles (the abort that the timeout timer
  triggers is the rejection \<open>AbortError\<close>; an exception thrown while the arguments are
  evaluated, as by \<open>JSON.stringify(body)\<close>, is a rejection too), the draw of
  \<open>Math.random()\<close> and the clock. A response carries what \<open>response.json()\<close> and
  \<open>response.text()\<close> settle to.
\<close>

record response =
  status :: nat
  statusText :: string
  retryAfterHeader :: "string option"
  contentTypeHeader :: "string option"
  jsonBody :: "thrown + js_value"
  textBody :: "thrown + string"

datatype fetch_outcome = Resolves response | Rejects thrown

record attempt_env =
  tokenResult :: "thrown + string"
  doc :: document
  fetchOutcome :: fetch_outcome
  randomDraw :: real
  nowMs :: int

text \<open>\<open>buildHeaders(config, method)\<close>: the warnings printed and the headers returned or
  the value thrown.\<close>

definition authHeaders ::
  "attempt_env \<Rightarrow> api_request_config option \<Rightarrow> console_warning list \<times> http_headers" where
  "authHeaders a config =
     (if (case config of None \<Rightarrow> True | Some c \<Rightarrow> withAuth c \<noteq> Some False)
      then (case tokenResult a of
              Inr token \<Rightarrow> ([], headersSet ''Authorization'' (''Bearer '' @ token) (initialHeaders config))
            | Inl e \<Rightarrow> ([FailedToGetAccessToken e], initialHeaders config))
      else ([], initialHeaders config))"

definition buildHeaders ::
  "'u platform \<Rightarrow> process_env \<Rightarrow> attempt_env \<Rightarrow> api_request_config option \<Rightarrow> string
     \<Rightarrow> console_warning list \<times> (thrown + http_headers)" where
  "buildHeaders P penv a config method =
     (let (ws, hs) = authHeaders a config
      in if method \<noteq> [] \<and> method \<in> set stateChangingMethods
         then (case getCsrfToken P (doc a) of
                 Inl e \<Rightarrow> (ws, Inl e)
               | Inr csrfToken \<Rightarrow>
                   if csrfToken \<noteq> None \<and> csrfToken \<noteq> Some []
                   then (ws, Inr (headersSet ''X-CSRF-Token'' (the csrfToken) hs))
                   else if isProduction penv
                   then (ws, Inl (ApiErr csrfTokenMissingError))
                   else (ws @ [CsrfTokenMissing method], Inr hs))
         else (ws, Inr hs))"

text \<open>\<open>handleResponse(response)\<close>\<close>

definition responseOk :: "response \<Rightarrow> bool" where
  "responseOk r = (200 \<le> status r \<and> status r \<le> 299)"

definition orElse :: "js_value \<Rightarrow> js_value \<Rightarrow> js_value" where
  "orElse a b = (if truthy a then a else b)"

definition handleResponse :: "response \<Rightarrow> thrown + js_value" where
  "handleResponse r =
     (let isJson = (case contentTypeHeader r of
                      None \<Rightarrow> False
                    | Some ct \<Rightarrow> includesStr ct ''application/json'');
          body = (if isJson then jsonBody r else map_sum id JStr (textBody r))
      in case body of
           Inl e \<Rightarrow> Inl e
         | Inr data \<Rightarrow>
             if \<not> responseOk r
             then (let error = \<lparr>code = JStr (''HTTP_'' @ showNat (status r)),
                                message = JStr (statusText r),
                                statusCode = Some (status r),
                                details = JUndefined\<rparr>
                   in if isJson \<and> isNonNullObject data
                      then Inl (ApiErr (error\<lparr>message := orElse (getProp data ''message'') (message error),
                                               code := orElse (getProp data ''code'') (code error),
                                               details := getProp data ''details''\<rparr>))
                      else Inl (ApiErr error))
             else Inr data)"

text \<open>
  \<open>request(method, endpoint, config, body)\<close>. The trace lists, in order, the warnings
  printed, the calls of \<open>fetch\<close> and the sleeps. One iteration of the \<open>for\<close> loop ends by
  returning, by throwing or by \<open>continue\<close> (with the value of \<open>lastError\<close>). The
  timeout timer and the request body act only through the outcome of \<open>fetch\<close>, which
  the attempt's environment gives; \<open>buildHeaders\<close> runs before the \<open>try\<close>, so what it
  throws does not pass through the \<open>catch\<close> block.
\<close>

datatype event =
    Warn console_warning
  | Fetch string string http_headers
  | Sleep real

datatype iteration_end = Return js_value | Throw thrown | Continue "api_error option"

definition timeoutError :: api_error where
  "timeoutError =
     \<lparr>code = JStr ''TIMEOUT'', message = JStr ''Request timeout'', statusCode = Some 408,
      details = JUndefined\<rparr>"

definition unknownError :: api_error where
  "unknownError =
     \<lparr>code = JStr ''UNKNOWN'', message = JStr ''Request failed'', statusCode = Some 500,
      details = JUndefined\<rparr>"

definition rateLimitedError :: "int option \<Rightarrow> string \<Rightarrow> string \<Rightarrow> api_error" where
  "rateLimitedError retryAfter endpoint method =
     \<lparr>code = JStr ''RATE_LIMITED'',
      message = JStr ''Too many requests. Please wait and try again.'',
      statusCode = Some 429,
      details = JObj [(''retryAfterSeconds'',
                        (case retryAfter of None \<Rightarrow> JUndefined | Some n \<Rightarrow> JNum (real_of_int n))),
                      (''endpoint'', JStr endpoint),
                      (''method'', JStr method)]\<rparr>"

text \<open>\<open>error instanceof Error && error.name === 'AbortError'\<close>\<close>

fun isAbortError :: "thrown \<Rightarrow> bool" where
  "isAbortError (Exception name _) = (name = ''AbortError'')"
| "isAbortError (ApiErr _) = False"

text \<open>\<open>(error as ApiError)?.code === 'RATE_LIMITED'\<close>\<close>

fun hasRateLimitedCode :: "thrown \<Rightarrow> bool" where
  "hasRateLimitedCode (ApiErr e) = (code e = JStr ''RATE_LIMITED'')"
| "hasRateLimitedCode (Exception _ _) = False"

text \<open>The \<open>catch\<close> block of the loop body.\<close>

definition catchBlock :: "thrown \<Rightarrow> nat \<Rightarrow> nat \<Rightarrow> api_error option \<Rightarrow> iteration_end" where
  "catchBlock error attempt maxR lastError =
     (if isAbortError error then Throw (ApiErr timeoutError)
      else if hasRateLimitedCode error \<and> attempt < maxR then Continue lastError
      else Throw error)"

definition maxRetriesOf :: "api_request_config option \<Rightarrow> nat" where
  "maxRetriesOf config =
     (if (case config of None \<Rightarrow> False | Some c \<Rightarrow> skipRateLimitRetry c = Some True)
      then 0 else maxRetries RATE_LIMIT_CONFIG)"

definition iteration ::
  "'u platform \<Rightarrow> process_env \<Rightarrow> attempt_env \<Rightarrow> string \<Rightarrow> string \<Rightarrow> string
     \<Rightarrow> api_request_config option \<Rightarrow> nat \<Rightarrow> api_error option
     \<Rightarrow> event list \<times> iteration_end" where
  "iteration P penv a method endpoint url config attempt lastError =
     (let maxR = maxRetriesOf config
      in case buildHeaders P penv a config method of
           (ws, Inl e) \<Rightarrow> (map Warn ws, Throw e)
         | (ws, Inr hs) \<Rightarrow>
             (let evs = map Warn ws @ [Fetch url method hs]
              in case fetchOutcome a of
                   Rejects e \<Rightarrow> (evs, catchBlock e attempt maxR lastError)
                 | Resolves r \<Rightarrow>
                     if status r = 429
                     then (let retryAfter = parseRetryAfter (dateParse P) (nowMs a) (retryAfterHeader r);
                               delay = calculateBackoffDelay (randomDraw a) attempt
                                         (map_option real_of_int retryAfter);
                               w = Warn (RateLimitHit method endpoint (attempt + 1) (maxR + 1) delay);
                               lastError' = rateLimitedError retryAfter endpoint method
                           in if attempt < maxR
                              then (evs @ [w, Sleep delay], Continue (Some lastError'))
                              else (evs @ [w],
                                    catchBlock (ApiErr lastError') attempt maxR (Some lastError')))
                     else (case handleResponse r of
                             Inr data \<Rightarrow> (evs, Return data)
                           | Inl e \<Rightarrow> (evs, catchBlock e attempt maxR lastError))))"

function requestLoop ::
  "'u platform \<Rightarrow> process_env \<Rightarrow> (nat \<Rightarrow> attempt_env) \<Rightarrow> string \<Rightarrow> string \<Rightarrow> string
     \<Rightarrow> api_request_config option \<Rightarrow> nat \<Rightarrow> api_error option
     \<Rightarrow> event list \<times> (thrown + js_value)" where
  "requestLoop P penv env method endpoint url config attempt lastError =
     (if attempt \<le> maxRetriesOf config
      then (case iteration P penv (env attempt) method endpoint url config attempt lastError of
              (evs, Return data) \<Rightarrow> (evs, Inr data)
            | (evs, Throw e) \<Rightarrow> (evs, Inl e)
            | (evs, Continue le) \<Rightarrow>
                (let (evs', r) = requestLoop P penv env method endpoint url config (Suc attempt) le
                 in (evs @ evs', r)))
      else ([], Inl (ApiErr (case lastError of Some e \<Rightarrow> e | None \<Rightarrow> unknownError))))"
  by pat_completeness auto
termination
  by (relation "measure (\<lambda>(P, penv, env, method, endpoint, url, config, attempt, lastError).
                           Suc (maxRetriesOf config) - attempt)") auto

declare requestLoop.simps [simp del]

text \<open>\<open>config?.params\<close>\<close>

definition configParams ::
  "api_request_config option \<Rightarrow> (string \<times> param_value) list option" where
  "configParams config = (case config of None \<Rightarrow> None | Some c \<Rightarrow> params c)"

definition request ::
  "'u platform \<Rightarrow> process_env \<Rightarrow> (nat \<Rightarrow> attempt_env) \<Rightarrow> client_state \<Rightarrow> string \<Rightarrow> string
     \<Rightarrow> api_request_config option
     \<Rightarrow> client_state \<times> event list \<times> (thrown + js_value)" where
  "request P penv env st method endpoint config =
     (case buildUrl P penv st endpoint (configParams config) of
        (st', ws, Inl e) \<Rightarrow> (st', map Warn ws, Inl e)
      | (st', ws, Inr url) \<Rightarrow>
          (let (evs, r) = requestLoop P penv env method endpoint url config 0 None
           in (st', map Warn ws @ evs, r)))"

definition networkCalls :: "event list \<Rightarrow> nat" where
  "networkCalls evs = length (filter (\<lambda>e. case e of Fetch _ _ _ \<Rightarrow> True | _ \<Rightarrow> False) evs)"

definition sleeps :: "event list \<Rightarrow> real list" where
  "sleeps evs = concat (map (\<lambda>e. case e of Sleep d \<Rightarrow> [d] | _ \<Rightarrow> []) evs)"




section \<open>Credential lifecycle manager\<close>







datatype promise_state = AwaitingSilent | AwaitingPopup | Fulfilled string | RejectedWith thrown

datatype idp_call = AcquireTokenSilent nat | AcquireTokenPopup nat

record auth_state =
  tokenRefreshTimeout :: "nat option"
  tokenRefreshPromise :: "nat option"
  isRefreshing :: bool
  pendingTimers :: "(nat \<times> int) list"
  nextTimerId :: nat
  promises :: "nat \<Rightarrow> promise_state option"
  nextPromiseId :: nat
  idpCalls :: "idp_call list"













section \<open>Sample inputs\<close>

text \<open>Stand-ins for the platform in the closed examples: a date parser that knows one
  HTTP date.\<close>

definition sampleDateParse :: "string \<Rightarrow> int option" where
  "sampleDateParse s =
     (if s = ''Wed, 21 Oct 2015 07:28:00 GMT'' then Some 1445412480000 else None)"


definition isAsciiLetter :: "char \<Rightarrow> bool" where
  "isAsciiLetter c =
     (let n = (of_char c :: nat) in (65 \<le> n \<and> n \<le> 90) \<or> (97 \<le> n \<and> n \<le> 122))"

text \<open>A small \<open>URL\<close> class: it accepts \<open>scheme://host\<close> followed by anything, lower-cases
  scheme and host, keeps the text as given and appends \<open>?k=v&...\<close>. Cookie decoding is
  the identity.\<close>

record sample_url =
  su_protocol :: string
  su_hostname :: string
  su_href :: string
  su_query :: "(string \<times> string) list"

definition sampleNewURL :: "string \<Rightarrow> sample_url option" where
  "sampleNewURL s =
     (let scheme = takeWhile (\<lambda>c. c \<noteq> CHR '':'') s;
          rest = drop (length scheme) s;
          host = takeWhile (\<lambda>c. c \<notin> set ''/:?#'') (drop 3 rest)
      in if scheme \<noteq> [] \<and> list_all isAsciiLetter scheme \<and> startsWith rest ''://''
            \<and> host \<noteq> []
         then Some \<lparr>su_protocol = map toLowerAscii scheme @ '':'',
                    su_hostname = map toLowerAscii host,
                    su_href = s, su_query = []\<rparr>
         else None)"

fun sampleQuery :: "(string \<times> string) list \<Rightarrow> string" where
  "sampleQuery [] = []"
| "sampleQuery [(k, v)] = k @ ''='' @ v"
| "sampleQuery ((k, v) # kvs) = k @ ''='' @ v @ ''&'' @ sampleQuery kvs"

definition samplePlatform :: "sample_url platform" where
  "samplePlatform =
     \<lparr>newURL = sampleNewURL,
      urlProtocol = su_protocol,
      urlHostname = su_hostname,
      searchParamsAppend = (\<lambda>u k v. u\<lparr>su_query := su_query u @ [(k, v)]\<rparr>),
      urlToString = (\<lambda>u. su_href u
                          @ (if su_query u = [] then [] else ''?'' @ sampleQuery (su_query u))),
      dateParse = sampleDateParse,
      decodeURIComponent = Some\<rparr>"

definition productionEnv :: "string option \<Rightarrow> process_env" where
  "productionEnv url = \<lparr>NEXT_PUBLIC_API_URL = url, NODE_ENV = Some ''production''\<rparr>"


definition freshClient :: client_state where
  "freshClient = \<lparr>baseUrl = None, cachedApiBaseUrl = None\<rparr>"

text \<open>Attempts for the closed examples: a signed-in caller, a document with no
  anti-forgery token, and the given outcome of \<open>fetch\<close>; a server that answers 429 to
  every attempt; a server that answers 503 with the error code \<open>RATE_LIMITED\<close> in its
  JSON body.\<close>

definition sampleAttempt :: "fetch_outcome \<Rightarrow> attempt_env" where
  "sampleAttempt f =
     \<lparr>tokenResult = Inr ''token'', doc = \<lparr>csrfMetaTag = None, cookie = []\<rparr>,
      fetchOutcome = f, randomDraw = 1 / 2, nowMs = 0\<rparr>"

definition sampleResponse :: "nat \<Rightarrow> string \<Rightarrow> string option \<Rightarrow> js_value \<Rightarrow> response" where
  "sampleResponse st txt retryAfter body =
     \<lparr>status = st, statusText = txt, retryAfterHeader = retryAfter,
      contentTypeHeader = Some ''application/json'', jsonBody = Inr body,
      textBody = Inr []\<rparr>"


definition disguisedRateLimit :: "nat \<Rightarrow> attempt_env" where
  "disguisedRateLimit i =
     sampleAttempt (Resolves (sampleResponse 503 ''Service Unavailable'' None
                                (JObj [(''code'', JStr ''RATE_LIMITED'')])))"


text \<open>The invariant of the renewal timers: at most one is pending, and a pending timer
  is the one whose handle \<open>tokenRefreshTimeout\<close> holds.\<close>

definition timersInv :: "auth_state \<Rightarrow> bool" where
  "timersInv st =
     (length (pendingTimers st) \<le> 1
      \<and> (\<forall>x \<in> set (pendingTimers st).
            tokenRefreshTimeout st = Some (fst x) \<and> fst x < nextTimerId st))"




section \<open>Backoff delay\<close>

lemma backoff_le_cap: "calculateBackoffDelay r i hint \<le> 30000"
  by (simp add: calculateBackoffDelay_def RATE_LIMIT_CONFIG_def Let_def)

lemma backoff_no_hint:
  "calculateBackoffDelay r i None = min (1000 * 2 ^ i + r * 0.2 * (1000 * 2 ^ i)) 30000"
  by (simp add: calculateBackoffDelay_def RATE_LIMIT_CONFIG_def Let_def)

lemma backoff_hint:
  "0 < h \<Longrightarrow> calculateBackoffDelay r i (Some h) = min (h * 1000 + r * 0.2 * h * 1000) 30000"
  by (simp add: calculateBackoffDelay_def RATE_LIMIT_CONFIG_def Let_def)

lemma backoff_nonpositive_hint:
  "\<not> 0 < h \<Longrightarrow> calculateBackoffDelay r i (Some h) = calculateBackoffDelay r i None"
  by (simp add: calculateBackoffDelay_def RATE_LIMIT_CONFIG_def Let_def)

text \<open>With no hint, the largest delay of attempt \<open>i\<close> (jitter below 20 percent) is at most
  the smallest delay of any later attempt.\<close>

lemma backoff_cross_draw:
  assumes "i < j" "0 \<le> r" "r < 1" "0 \<le> r'"
  shows "calculateBackoffDelay r i None \<le> calculateBackoffDelay r' j None"
proof -
  have "Suc i \<le> j" using assms(1) by simp
  then have p: "(2::real) ^ Suc i \<le> 2 ^ j" by (rule power_increasing) simp
  have pos: "(0::real) < 2 ^ i" by simp
  have "r * 0.2 * (1000 * 2 ^ i) \<le> 1 * 0.2 * (1000 * 2 ^ i)"
    using assms(3) pos by (intro mult_right_mono) auto
  then have a: "1000 * 2 ^ i + r * 0.2 * (1000 * 2 ^ i) \<le> 1000 * 2 ^ Suc i"
    using pos by simp
  have b: "(1000::real) * 2 ^ Suc i \<le> 1000 * 2 ^ j" using p by simp
  have "0 \<le> r' * 0.2 * (1000 * 2 ^ j)" using assms(4) by simp
  then have c: "1000 * 2 ^ j \<le> 1000 * 2 ^ j + r' * 0.2 * (1000 * 2 ^ j)" by simp
  from a b c
  have "1000 * 2 ^ i + r * 0.2 * (1000 * 2 ^ i) \<le> 1000 * 2 ^ j + r' * 0.2 * (1000 * 2 ^ j)"
    by linarith
  then show ?thesis unfolding backoff_no_hint by (simp add: min_le_iff_disj)
qed

lemma backoff_same_draw:
  assumes "i \<le> j" "0 \<le> r" "r < 1"
  shows "calculateBackoffDelay r i None \<le> calculateBackoffDelay r j None"
proof (cases "i = j")
  case True
  then show ?thesis by simp
next
  case False
  then have "i < j" using assms(1) by simp
  then show ?thesis using backoff_cross_draw assms by blast
qed

text \<open>
  Claim C4. For every attempt index \<open>i\<close> and every jitter draw \<open>r\<close> in \<open>[0, 1)\<close>:
  with a retry hint \<open>h > 0\<close> seconds, \<open>calculateBackoffDelay\<close> returns
  \<open>min(h*1000 + r*0.2*h*1000, 30000)\<close>; otherwise (no hint, or a hint that is not
  positive) it returns \<open>min(1000*2^i + r*0.2*1000*2^i, 30000)\<close>. The result never
  exceeds 30000 ms. With no hint the delay is non-decreasing in \<open>i\<close> for one and the
  same draw, and the delay of attempt \<open>i\<close> under any draw is at most the delay of a
  later attempt under any other draw; so the expected delay is non-decreasing in \<open>i\<close>.
\<close>

theorem C4_backoff_delay:
  assumes "0 \<le> r" and "r < 1"
  shows "calculateBackoffDelay r i hint =
           (if hint \<noteq> None \<and> 0 < the hint
            then min (the hint * 1000 + r * 0.2 * the hint * 1000) 30000
            else min (1000 * 2 ^ i + r * 0.2 * (1000 * 2 ^ i)) 30000)
         \<and> calculateBackoffDelay r i hint \<le> 30000
         \<and> (\<forall>j. i \<le> j \<longrightarrow> calculateBackoffDelay r i None \<le> calculateBackoffDelay r j None)
         \<and> (\<forall>j r'. i < j \<and> 0 \<le> r' \<and> r' < 1 \<longrightarrow>
               calculateBackoffDelay r i None \<le> calculateBackoffDelay r' j None)"
proof -
  have "calculateBackoffDelay r i hint =
           (if hint \<noteq> None \<and> 0 < the hint
            then min (the hint * 1000 + r * 0.2 * the hint * 1000) 30000
            else min (1000 * 2 ^ i + r * 0.2 * (1000 * 2 ^ i)) 30000)"
    by (cases hint) (simp_all add: backoff_no_hint backoff_hint backoff_nonpositive_hint)
  moreover have "calculateBackoffDelay r i hint \<le> 30000" by (rule backoff_le_cap)
  moreover have "\<forall>j. i \<le> j \<longrightarrow> calculateBackoffDelay r i None \<le> calculateBackoffDelay r j None"
    using backoff_same_draw assms by blast
  moreover have "\<forall>j r'. i < j \<and> 0 \<le> r' \<and> r' < 1 \<longrightarrow>
                   calculateBackoffDelay r i None \<le> calculateBackoffDelay r' j None"
    using backoff_cross_draw assms by blast
  ultimately show ?thesis by blast
qed

theorem C4_backoff_delay_witness:
  "(0::real) \<le> 1 / 2 \<and> (1::real) / 2 < 1
   \<and> calculateBackoffDelay (1 / 2) 2 (Some 5) = 5500
   \<and> calculateBackoffDelay (1 / 2) 2 None = 4400
   \<and> calculateBackoffDelay (1 / 2) 2 (Some 40) = 30000
   \<and> calculateBackoffDelay (1 / 2) 2 None \<le> calculateBackoffDelay 0 3 None"
proof -
  have h: "(0::real) \<le> 1 / 2" "(1::real) / 2 < 1" by simp_all
  have a: "calculateBackoffDelay (1 / 2) 2 (Some 5) = 5500"
    using C4_backoff_delay [OF h, of 2 "Some 5"] by simp
  have b: "calculateBackoffDelay (1 / 2) 2 None = 4400"
    using C4_backoff_delay [OF h, of 2 None] by simp
  have c: "calculateBackoffDelay (1 / 2) 2 (Some 40) = 30000"
    using C4_backoff_delay [OF h, of 2 "Some 40"] by simp
  have "(2::nat) < 3 \<and> (0::real) \<le> 0 \<and> (0::real) < 1" by simp
  then have d: "calculateBackoffDelay (1 / 2) 2 None \<le> calculateBackoffDelay 0 3 None"
    using C4_backoff_delay [OF h, of 2 None] by blast
  show ?thesis using h a b c d by blast
qed

section \<open>Retry-After parsing\<close>















section \<open>Base URL resolution\<close>

lemmas eval_url =
  sampleNewURL_def samplePlatform_def Let_def startsWith_def isAsciiLetter_def toLowerAscii_def





section \<open>Request URL\<close>





lemma sample_parse_api:
  "newURL samplePlatform ''https://api.example.com/x'' =
     Some \<lparr>su_protocol = ''https:'', su_hostname = ''api.example.com'',
           su_href = ''https://api.example.com/x'', su_query = []\<rparr>"
  by (simp add: eval_url)





section \<open>Rate limiting in the request loop\<close>

lemma networkCalls_append [simp]: "networkCalls (a @ b) = networkCalls a + networkCalls b"
  by (simp add: networkCalls_def)

lemma networkCalls_Warn [simp]: "networkCalls (map Warn ws) = 0"
  by (induction ws) (simp_all add: networkCalls_def)

lemma networkCalls_simps [simp]:
  "networkCalls [] = 0"
  "networkCalls (Fetch u m h # evs) = Suc (networkCalls evs)"
  "networkCalls (Warn w # evs) = networkCalls evs"
  "networkCalls (Sleep d # evs) = networkCalls evs"
  by (simp_all add: networkCalls_def)

lemma sleeps_append [simp]: "sleeps (a @ b) = sleeps a @ sleeps b"
  by (simp add: sleeps_def)

lemma sleeps_Warn [simp]: "sleeps (map Warn ws) = []"
  by (induction ws) (simp_all add: sleeps_def)

lemma sleeps_simps [simp]:
  "sleeps [] = []"
  "sleeps (Fetch u m h # evs) = sleeps evs"
  "sleeps (Warn w # evs) = sleeps evs"
  "sleeps (Sleep d # evs) = d # sleeps evs"
  by (simp_all add: sleeps_def)


lemma requestLoop_throw:
  "k \<le> maxRetriesOf config \<Longrightarrow>
   iteration P penv (env k) method endpoint url config k le = (evs, Throw e) \<Longrightarrow>
   requestLoop P penv env method endpoint url config k le = (evs, Inl e)"
  by (subst requestLoop.simps) simp

lemma requestLoop_continue:
  "k \<le> maxRetriesOf config \<Longrightarrow>
   iteration P penv (env k) method endpoint url config k le = (evs, Continue le') \<Longrightarrow>
   requestLoop P penv env method endpoint url config k le =
     (evs @ fst (requestLoop P penv env method endpoint url config (Suc k) le'),
      snd (requestLoop P penv env method endpoint url config (Suc k) le'))"
  by (subst requestLoop.simps) (simp add: case_prod_unfold Let_def)





lemma request_built:
  "buildUrl P penv st endpoint (configParams config) = (st', ws, Inr url) \<Longrightarrow>
   request P penv env st method endpoint config =
     (st', map Warn ws @ fst (requestLoop P penv env method endpoint url config 0 None),
      snd (requestLoop P penv env method endpoint url config 0 None))"
  by (simp add: request_def case_prod_unfold Let_def)




lemma buildHeaders_plain:
  "method \<notin> set stateChangingMethods \<Longrightarrow>
   buildHeaders P penv a config method = (fst (authHeaders a config), Inr (snd (authHeaders a config)))"
  by (simp add: buildHeaders_def case_prod_unfold Let_def)



lemma sample_buildUrl_absolute:
  "buildUrl samplePlatform penv st ''https://api.example.com/x'' None =
     (st, [], Inr ''https://api.example.com/x'')"
  using sample_parse_api
  by (simp add: buildUrl_def startsWith_def finishUrl_def samplePlatform_def)

lemma get_not_state_changing: "''GET'' \<notin> set stateChangingMethods"
  by (simp add: stateChangingMethods_def)



lemma sample_handleResponse_503:
  "handleResponse (sampleResponse 503 ''Service Unavailable'' None
                     (JObj [(''code'', JStr ''RATE_LIMITED'')])) =
     Inl (ApiErr \<lparr>code = JStr ''RATE_LIMITED'', message = JStr ''Service Unavailable'',
                  statusCode = Some 503, details = JUndefined\<rparr>)"
  by (simp add: handleResponse_def sampleResponse_def Let_def startsWith_def responseOk_def
        orElse_def)

lemma sample_iteration_503:
  "iteration samplePlatform penv (disguisedRateLimit k) ''GET'' endpoint url None k le =
     (map Warn (fst (authHeaders (disguisedRateLimit k) None))
        @ [Fetch url ''GET'' (snd (authHeaders (disguisedRateLimit k) None))],
      if k < 3 then Continue le
      else Throw (ApiErr \<lparr>code = JStr ''RATE_LIMITED'', message = JStr ''Service Unavailable'',
                          statusCode = Some 503, details = JUndefined\<rparr>))"
  using sample_handleResponse_503
  by (simp add: iteration_def buildHeaders_plain [OF get_not_state_changing] Let_def
        disguisedRateLimit_def sampleAttempt_def catchBlock_def maxRetriesOf_def
        RATE_LIMIT_CONFIG_def sampleResponse_def)

text \<open>
  Claim C9 says that only HTTP 429 triggers a local retry. The \<open>catch\<close> block retries
  any thrown value whose \<open>code\<close> is \<open>RATE_LIMITED\<close> while retries are left, and
  \<open>handleResponse\<close> takes \<open>code\<close> from the JSON body of an error response. So a
  response of status 503 whose body carries \<open>code: RATE_LIMITED\<close> is retried: with the
  default configuration the pipeline calls \<open>fetch\<close> four times, without sleeping
  between the calls, before it surfaces the error.
\<close>

theorem C9_retry_without_429:
  "status (sampleResponse 503 ''Service Unavailable'' None (JObj [(''code'', JStr ''RATE_LIMITED'')]))
     \<noteq> 429
   \<and> networkCalls (fst (snd (request samplePlatform (productionEnv None) disguisedRateLimit
                               freshClient ''GET'' ''https://api.example.com/x'' None))) = 4
   \<and> sleeps (fst (snd (request samplePlatform (productionEnv None) disguisedRateLimit
                         freshClient ''GET'' ''https://api.example.com/x'' None))) = []
   \<and> snd (snd (request samplePlatform (productionEnv None) disguisedRateLimit
                 freshClient ''GET'' ''https://api.example.com/x'' None))
       = Inl (ApiErr \<lparr>code = JStr ''RATE_LIMITED'', message = JStr ''Service Unavailable'',
                      statusCode = Some 503, details = JUndefined\<rparr>)"
proof -
  have u: "buildUrl samplePlatform (productionEnv None) freshClient ''https://api.example.com/x''
             (configParams None) = (freshClient, [], Inr ''https://api.example.com/x'')"
    by (simp add: configParams_def sample_buildUrl_absolute)
  have m: "maxRetriesOf None = 3" by (simp add: maxRetriesOf_def RATE_LIMIT_CONFIG_def)
  note it = sample_iteration_503 [where penv = "productionEnv None"
              and endpoint = "''https://api.example.com/x''" and url = "''https://api.example.com/x''"
              and le = None]
  have l3: "requestLoop samplePlatform (productionEnv None) disguisedRateLimit ''GET''
              ''https://api.example.com/x'' ''https://api.example.com/x'' None 3 None =
            (map Warn (fst (authHeaders (disguisedRateLimit 3) None))
               @ [Fetch ''https://api.example.com/x'' ''GET'' (snd (authHeaders (disguisedRateLimit 3) None))],
             Inl (ApiErr \<lparr>code = JStr ''RATE_LIMITED'', message = JStr ''Service Unavailable'',
                          statusCode = Some 503, details = JUndefined\<rparr>))"
    by (rule requestLoop_throw [where env = disguisedRateLimit]) (simp_all add: m it)
  have step: "k < 3 \<Longrightarrow>
      requestLoop samplePlatform (productionEnv None) disguisedRateLimit ''GET''
              ''https://api.example.com/x'' ''https://api.example.com/x'' None k None =
      ((map Warn (fst (authHeaders (disguisedRateLimit k) None))
               @ [Fetch ''https://api.example.com/x'' ''GET'' (snd (authHeaders (disguisedRateLimit k) None))])
         @ fst (requestLoop samplePlatform (productionEnv None) disguisedRateLimit ''GET''
              ''https://api.example.com/x'' ''https://api.example.com/x'' None (Suc k) None),
       snd (requestLoop samplePlatform (productionEnv None) disguisedRateLimit ''GET''
              ''https://api.example.com/x'' ''https://api.example.com/x'' None (Suc k) None))" for k
    by (rule requestLoop_continue [where env = disguisedRateLimit]) (simp_all add: m it)
  have l2: "networkCalls (fst (requestLoop samplePlatform (productionEnv None) disguisedRateLimit ''GET''
              ''https://api.example.com/x'' ''https://api.example.com/x'' None 0 None)) = 4
          \<and> sleeps (fst (requestLoop samplePlatform (productionEnv None) disguisedRateLimit ''GET''
              ''https://api.example.com/x'' ''https://api.example.com/x'' None 0 None)) = []
          \<and> snd (requestLoop samplePlatform (productionEnv None) disguisedRateLimit ''GET''
              ''https://api.example.com/x'' ''https://api.example.com/x'' None 0 None)
             = Inl (ApiErr \<lparr>code = JStr ''RATE_LIMITED'', message = JStr ''Service Unavailable'',
                          statusCode = Some 503, details = JUndefined\<rparr>)"
    using step [of 0] step [of 1] step [of 2] l3
    by (simp add: numeral_2_eq_2 numeral_3_eq_3 eval_nat_numeral)
  show ?thesis using l2 by (simp add: request_built [OF u] sampleResponse_def)
qed

section \<open>Anti-forgery token enforcement\<close>

















section \<open>Values thrown by the request pipeline\<close>











section \<open>Proactive renewal timer\<close>






lemma timersInv_fields:
  "pendingTimers st' = pendingTimers st \<Longrightarrow> tokenRefreshTimeout st' = tokenRefreshTimeout st
   \<Longrightarrow> nextTimerId st' = nextTimerId st \<Longrightarrow> timersInv st' = timersInv st"
  by (simp add: timersInv_def)












section \<open>Single-flight token acquisition\<close>









end
